theory Spec2Isabelle
  imports Complex_Main
begin

section \<open>Ledger data model\<close>

text \<open>
  The types of \<^verbatim>\<open>graph/schema.py\<close> as \<^verbatim>\<open>graph/workflow.py\<close> uses them.
  Python's unbounded \<^verbatim>\<open>int\<close> is \<^typ>\<open>int\<close>. Monetary amounts are Python floats in
  the source; here they are exact rationals, so that \<^verbatim>\<open>//\<close> is the floor of the exact
  quotient and \<^verbatim>\<open>round(x, 2)\<close> is rounding of the exact value to the nearest
  hundredth, ties to the even hundredth. The binary rounding error of the individual
  float operations is outside this model.
\<close>

datatype Action = BUY | SELL | HOLD

record Decision =
  action :: Action
  shares :: int
  price :: rat
  justification :: string

text \<open>The field \<^verbatim>\<open>value\<close> of a position is called \<open>position_value\<close> here.\<close>

record Position =
  shares :: int
  position_value :: rat

text \<open>The field \<^verbatim>\<open>id\<close> of a portfolio is called \<open>portfolio_id\<close> here; a trading date is
  a point on a linear time axis.\<close>

record Portfolio =
  portfolio_id :: string
  config_id :: string
  trading_date :: nat
  cashflow :: rat
  total_assets :: rat
  positions :: "string \<rightharpoonup> Position"

text \<open>What the logger receives from the ledger update: the two clipping warnings.\<close>

datatype warning =
  LimitedBuy string int int
| LimitedSell string int int

section \<open>Rounding to two decimals\<close>

definition round_half_even :: "rat \<Rightarrow> int" where
  "round_half_even x =
     (let f = \<lfloor>x\<rfloor>; r = x - of_int f
      in if r < 1 / 2 then f
         else if 1 / 2 < r then f + 1
         else if even f then f else f + 1)"

text \<open>Python's \<^verbatim>\<open>round(x, 2)\<close>.\<close>

definition round2 :: "rat \<Rightarrow> rat" where
  "round2 x = of_int (round_half_even (x * 100)) / 100"


section \<open>The ledger update of \<^verbatim>\<open>AgentWorkflow.update_portfolio_ticker\<close>\<close>

definition TRANSACTION_FEE_RATE :: rat where
  "TRANSACTION_FEE_RATE = 2 / 100"

text \<open>The position of a ticker after the source's
  \<^verbatim>\<open>if ticker not in portfolio.positions: ... Position(shares=0, value=0)\<close>.\<close>

definition position_or_new :: "Portfolio \<Rightarrow> string \<Rightarrow> Position" where
  "position_or_new portfolio ticker =
     (case positions portfolio ticker of
        None \<Rightarrow> \<lparr>Position.shares = 0, position_value = 0\<rparr>
      | Some pos \<Rightarrow> pos)"

definition max_affordable_shares :: "Portfolio \<Rightarrow> rat \<Rightarrow> int" where
  "max_affordable_shares portfolio p = (if 0 < p then \<lfloor>cashflow portfolio / p\<rfloor> else 0)"

text \<open>
  The function mutates the portfolio in place and returns it; the model returns the new
  portfolio together with the warnings logged. The three stages are the source's: the
  branch on the action (shares and cash), the recomputation of the position's value, the
  rounding of the cash.
\<close>

definition update_portfolio_ticker ::
  "Portfolio \<Rightarrow> string \<Rightarrow> Decision \<Rightarrow> bool \<Rightarrow> Portfolio \<times> warning list" where
  "update_portfolio_ticker portfolio ticker decision enable_transaction_fee =
     (let req = Decision.shares decision;
          p = price decision;
          pos = position_or_new portfolio ticker;
          cash = cashflow portfolio;
          (new_shares, new_cash, warnings) =
            (case action decision of
               BUY \<Rightarrow>
                 (let actual_shares = min req (max_affordable_shares portfolio p)
                  in (Position.shares pos + actual_shares,
                      cash - p * of_int actual_shares,
                      if actual_shares < req then [LimitedBuy ticker req actual_shares] else []))
             | SELL \<Rightarrow>
                 (let max_sellable_shares = Position.shares pos;
                      actual_shares = min req max_sellable_shares
                  in (Position.shares pos - actual_shares,
                      (if enable_transaction_fee
                       then cash + p * of_int actual_shares * (1 - TRANSACTION_FEE_RATE)
                       else cash + p * of_int actual_shares),
                      if actual_shares < req then [LimitedSell ticker req actual_shares] else []))
             | HOLD \<Rightarrow> (Position.shares pos, cash, []))
      in (portfolio
            \<lparr>cashflow := round2 new_cash,
             positions := (positions portfolio)
               (ticker \<mapsto> \<lparr>Position.shares = new_shares,
                            position_value = round2 (p * of_int new_shares)\<rparr>)\<rparr>,
          warnings))"


section \<open>Sequences of decisions and the ledger invariant\<close>





abbreviation holding :: "rat \<Rightarrow> string \<Rightarrow> int \<Rightarrow> rat \<Rightarrow> Portfolio" where
  "holding c t n v \<equiv>
     \<lparr>portfolio_id = ''p-1'', config_id = ''c-1'', trading_date = 0, cashflow = c,
      total_assets = c + v,
      positions = [t \<mapsto> \<lparr>Position.shares = n, position_value = v\<rparr>]\<rparr>"

abbreviation order :: "Action \<Rightarrow> int \<Rightarrow> rat \<Rightarrow> Decision" where
  "order a n p \<equiv> \<lparr>action = a, shares = n, price = p, justification = ''''\<rparr>"


section \<open>Errors\<close>

text \<open>The Python exceptions the modelled code raises, each with its message.\<close>

datatype error =
  RuntimeError string
| ValueError string
| TypeError string
| KeyError string

section \<open>The step registry of \<^verbatim>\<open>agents/registry.py\<close>\<close>

text \<open>
  The class attributes of \<^verbatim>\<open>AgentRegistry\<close>. A registered callable is a value of
  the type parameter. The strings behind the \<^verbatim>\<open>AgentKey\<close> constants are declared in
  \<^verbatim>\<open>graph/constants.py\<close>, so \<open>ANALYST_KEYS\<close> is a field here instead of a fixed list.
\<close>

record 'f AgentRegistry =
  agent_func_mapping :: "string \<rightharpoonup> 'f"
  agent_doc_mapping :: "string \<rightharpoonup> string"
  ANALYST_KEYS :: "string list"

text \<open>
  \<^verbatim>\<open>return cls.agent_func_mapping.get(key)\<close>: \<^verbatim>\<open>dict.get\<close> returns \<^verbatim>\<open>None\<close> for a
  missing key and raises nothing. The result type has an error side all the same, so that
  ``raises'' and ``returns \<^verbatim>\<open>None\<close>'' are different values.
\<close>

definition get_agent_func_by_key :: "'f AgentRegistry \<Rightarrow> string \<Rightarrow> error + 'f option" where
  "get_agent_func_by_key cls key = Inr (agent_func_mapping cls key)"

definition get_all_analyst_keys :: "'f AgentRegistry \<Rightarrow> string list" where
  "get_all_analyst_keys cls = ANALYST_KEYS cls"

definition check_agent_key :: "'f AgentRegistry \<Rightarrow> string \<Rightarrow> bool" where
  "check_agent_key cls key = (key \<in> set (ANALYST_KEYS cls))"

text \<open>\<^verbatim>\<open>return cls.agent_doc_mapping[key]\<close>: subscription raises \<^verbatim>\<open>KeyError\<close>.\<close>

definition get_analyst_info :: "'f AgentRegistry \<Rightarrow> string \<Rightarrow> error + string" where
  "get_analyst_info cls key =
     (case agent_doc_mapping cls key of
        None \<Rightarrow> Inl (KeyError key)
      | Some doc \<Rightarrow> Inr doc)"

definition register_agent ::
  "'f AgentRegistry \<Rightarrow> string \<Rightarrow> 'f \<Rightarrow> string \<Rightarrow> 'f AgentRegistry" where
  "register_agent cls key agent_func agent_doc =
     cls\<lparr>agent_func_mapping := (agent_func_mapping cls)(key \<mapsto> agent_func),
         agent_doc_mapping := (agent_doc_mapping cls)(key \<mapsto> agent_doc)\<rparr>"

abbreviation empty_registry :: "unit AgentRegistry" where
  "empty_registry \<equiv>
     \<lparr>agent_func_mapping = Map.empty, agent_doc_mapping = Map.empty, ANALYST_KEYS = []\<rparr>"

section \<open>The portfolio tables of \<^verbatim>\<open>database/cs2_sqlite_helper.py\<close>\<close>

text \<open>
  A row of \<^verbatim>\<open>cs2_config\<close> (the columns read here) and a row of \<^verbatim>\<open>cs2_portfolio\<close>.
  Timestamps and trading dates are stored as ISO strings in the source; here both are
  natural numbers, with the order and equality of the strings. The JSON text of the
  column \<^verbatim>\<open>positions\<close> is the dictionary it encodes. A table is the list of its rows in
  insertion order.
\<close>

record config_row =
  config_row_id :: string
  config_row_exp_name :: string

record portfolio_row =
  row_id :: string
  row_config_id :: string
  row_updated_at :: nat
  row_trading_date :: nat
  row_cashflow :: rat
  row_total_assets :: rat
  row_positions :: "string \<rightharpoonup> Position"

record database =
  cs2_config :: "config_row list"
  cs2_portfolio :: "portfolio_row list"

text \<open>
  The dictionary the database functions return for a portfolio: the keys of a
  \<open>Portfolio\<close>, and \<^verbatim>\<open>updated_at\<close> when the dictionary is read from a row (the
  dictionaries built after an insert have no such key). The key \<^verbatim>\<open>market_type\<close>, which
  is always \<^verbatim>\<open>'cs2'\<close>, is left out.
\<close>

record portfolio_dict = Portfolio +
  updated_at :: "nat option"

text \<open>The values \<^verbatim>\<open>uuid.uuid4()\<close> and \<^verbatim>\<open>datetime.now()\<close> yield during one run, one
  pair for each call site that may be reached.\<close>

record entropy =
  uuid_config :: string
  uuid_create :: string
  now_create :: nat
  uuid_copy :: string
  now_copy :: nat
  now_update :: nat

definition row_dict :: "portfolio_row \<Rightarrow> portfolio_dict" where
  "row_dict r =
     \<lparr>portfolio_id = row_id r, config_id = row_config_id r, trading_date = row_trading_date r,
      cashflow = row_cashflow r, total_assets = row_total_assets r,
      positions = row_positions r, updated_at = Some (row_updated_at r)\<rparr>"

text \<open>\<^verbatim>\<open>sum(position['value'] for position in positions.values())\<close>\<close>

definition total_value :: "(string \<rightharpoonup> Position) \<Rightarrow> rat" where
  "total_value ps = (\<Sum>t \<in> dom ps. position_value (the (ps t)))"

text \<open>
  \<^verbatim>\<open>ORDER BY updated_at DESC LIMIT 1\<close>: a row with the greatest timestamp. Among rows
  with the same timestamp SQL leaves the choice open; the model takes the first of them.
\<close>

fun latest_row :: "portfolio_row list \<Rightarrow> portfolio_row option" where
  "latest_row [] = None"
| "latest_row (r # rs) =
     (case latest_row rs of
        None \<Rightarrow> Some r
      | Some r' \<Rightarrow> if row_updated_at r < row_updated_at r' then Some r' else Some r)"

definition rows_of_config :: "database \<Rightarrow> string \<Rightarrow> portfolio_row list" where
  "rows_of_config db cid = filter (\<lambda>r. row_config_id r = cid) (cs2_portfolio db)"

text \<open>\<^verbatim>\<open>WHERE config_id = ? AND trading_date = ?\<close>\<close>

definition snapshot_of :: "string \<Rightarrow> nat \<Rightarrow> portfolio_row \<Rightarrow> bool" where
  "snapshot_of cid date r = (row_config_id r = cid \<and> row_trading_date r = date)"

text \<open>The primary key of \<^verbatim>\<open>cs2_portfolio\<close>: an insert with an id already present
  raises, and the function's \<^verbatim>\<open>except\<close> turns that into \<^verbatim>\<open>None\<close>.\<close>

definition id_taken :: "database \<Rightarrow> string \<Rightarrow> bool" where
  "id_taken db uid = list_ex (\<lambda>r. row_id r = uid) (cs2_portfolio db)"

definition get_config_id_by_name :: "database \<Rightarrow> string \<Rightarrow> string option" where
  "get_config_id_by_name db name =
     map_option config_row_id (find (\<lambda>c. config_row_exp_name c = name) (cs2_config db))"

definition create_config :: "database \<Rightarrow> string \<Rightarrow> string \<Rightarrow> database \<times> string option" where
  "create_config db name uid =
     (if list_ex (\<lambda>c. config_row_id c = uid) (cs2_config db) then (db, None)
      else (db\<lparr>cs2_config := cs2_config db
                  @ [\<lparr>config_row_id = uid, config_row_exp_name = name\<rparr>]\<rparr>,
            Some uid))"

definition get_latest_trading_date :: "database \<Rightarrow> string \<Rightarrow> nat option" where
  "get_latest_trading_date db cid = map_option row_trading_date (latest_row (rows_of_config db cid))"

definition get_latest_portfolio :: "database \<Rightarrow> string \<Rightarrow> portfolio_dict option" where
  "get_latest_portfolio db cid = map_option row_dict (latest_row (rows_of_config db cid))"

definition create_portfolio ::
  "database \<Rightarrow> string \<Rightarrow> rat \<Rightarrow> nat \<Rightarrow> string \<Rightarrow> nat \<Rightarrow> database \<times> portfolio_dict option" where
  "create_portfolio db cid cash date uid now =
     (if id_taken db uid then (db, None)
      else (db\<lparr>cs2_portfolio := cs2_portfolio db
                  @ [\<lparr>row_id = uid, row_config_id = cid, row_updated_at = now,
                      row_trading_date = date, row_cashflow = cash,
                      row_total_assets = cash, row_positions = Map.empty\<rparr>]\<rparr>,
            Some \<lparr>portfolio_id = uid, config_id = cid, trading_date = date, cashflow = cash,
                  total_assets = cash, positions = Map.empty, updated_at = None\<rparr>))"

text \<open>
  \<^verbatim>\<open>copy_portfolio\<close>: the row found for the configuration and date is returned as it
  is; otherwise a row is inserted that carries the cash and positions of the portfolio
  given. The argument's positions are a dictionary, as every caller passes them.
\<close>

definition copy_portfolio ::
  "database \<Rightarrow> string \<Rightarrow> 'a Portfolio_scheme \<Rightarrow> nat \<Rightarrow> string \<Rightarrow> nat
     \<Rightarrow> database \<times> portfolio_dict option" where
  "copy_portfolio db cid portfolio date uid now =
     (case find (snapshot_of cid date) (cs2_portfolio db) of
        Some existing_row \<Rightarrow> (db, Some (row_dict existing_row))
      | None \<Rightarrow>
          (let total = cashflow portfolio + total_value (positions portfolio)
           in if id_taken db uid then (db, None)
              else (db\<lparr>cs2_portfolio := cs2_portfolio db
                          @ [\<lparr>row_id = uid, row_config_id = cid, row_updated_at = now,
                              row_trading_date = date, row_cashflow = cashflow portfolio,
                              row_total_assets = total,
                              row_positions = positions portfolio\<rparr>]\<rparr>,
                    Some \<lparr>portfolio_id = uid, config_id = cid, trading_date = date,
                          cashflow = cashflow portfolio, total_assets = total,
                          positions = positions portfolio, updated_at = None\<rparr>)))"

text \<open>\<^verbatim>\<open>update_portfolio\<close>: the \<^verbatim>\<open>UPDATE\<close> rewrites every row of the configuration and
  date; the result is \<^verbatim>\<open>cursor.rowcount > 0\<close>.\<close>

definition update_portfolio ::
  "database \<Rightarrow> string \<Rightarrow> 'a Portfolio_scheme \<Rightarrow> nat \<Rightarrow> nat \<Rightarrow> database \<times> bool" where
  "update_portfolio db cid portfolio date now =
     (let total = cashflow portfolio + total_value (positions portfolio)
      in (db\<lparr>cs2_portfolio :=
                map (\<lambda>r. if snapshot_of cid date r
                         then r\<lparr>row_cashflow := cashflow portfolio,
                                row_total_assets := total,
                                row_positions := positions portfolio,
                                row_updated_at := now\<rparr>
                         else r)
                  (cs2_portfolio db)\<rparr>,
          list_ex (snapshot_of cid date) (cs2_portfolio db)))"

section \<open>The trading-date driver of \<^verbatim>\<open>graph/workflow.py\<close> and \<^verbatim>\<open>run.py\<close>\<close>

text \<open>
  The configuration dictionary, with the keys the driver reads. The keys \<^verbatim>\<open>trading_date\<close>
  and \<^verbatim>\<open>cashflow\<close> carry the prefix \<open>cfg_\<close> as all keys do here.
\<close>

record config =
  cfg_exp_name :: string
  cfg_tickers :: "string list"
  cfg_trading_date :: nat
  cfg_cashflow :: rat
  cfg_planner_mode :: bool
  cfg_workflow_analysts :: "string list"
  cfg_enable_transaction_fee :: bool

text \<open>
  The attributes of an \<^verbatim>\<open>AgentWorkflow\<close> (\<open>self_trading_date\<close> is
  \<^verbatim>\<open>self.trading_date\<close>).
\<close>

record AgentWorkflow =
  tickers :: "string list"
  exp_name :: string
  self_trading_date :: nat
  init_portfolio :: Portfolio
  planner_mode :: bool
  workflow_analysts :: "string list"
  enable_transaction_fee :: bool

text \<open>
  The collaborators outside the source: \<^verbatim>\<open>planner_agent(ticker, llm_config, analysts)\<close>,
  and the LangGraph workflow that \<^verbatim>\<open>build\<close> compiles for the current analysts, as the
  function from the ticker and the portfolio of the state to the decision of the final
  state. Either may raise.
\<close>

record collaborators =
  planner_agent :: "string \<Rightarrow> string list \<Rightarrow> error + string list"
  build :: "string list \<Rightarrow> error + (string \<Rightarrow> Portfolio \<Rightarrow> error + Decision)"

text \<open>What the run writes to the log, as far as the order of the work shows in it.\<close>

datatype log_entry =
  WorkflowCompiled string
| Warned warning
| PositionUpdate string
| UpdatingDatabase

text \<open>\<^verbatim>\<open>AgentWorkflow.__init__\<close>: load or create the latest portfolio, copy it to the
  trading date, keep the valid analysts.\<close>

definition workflow_init ::
  "'f AgentRegistry \<Rightarrow> database \<Rightarrow> config \<Rightarrow> string \<Rightarrow> entropy
     \<Rightarrow> database \<times> (error + AgentWorkflow)" where
  "workflow_init registry db cfg cid ent =
     (let (db1, loaded) =
            (case get_latest_portfolio db cid of
               Some portfolio \<Rightarrow> (db, Inr portfolio)
             | None \<Rightarrow>
                 (case create_portfolio db cid (cfg_cashflow cfg) (cfg_trading_date cfg)
                         (uuid_create ent) (now_create ent) of
                    (db', Some portfolio) \<Rightarrow> (db', Inr portfolio)
                  | (db', None) \<Rightarrow> (db', Inl (RuntimeError ''Failed to create portfolio''))))
      in case loaded of
           Inl e \<Rightarrow> (db1, Inl e)
         | Inr portfolio \<Rightarrow>
             (case copy_portfolio db1 cid portfolio (cfg_trading_date cfg)
                     (uuid_copy ent) (now_copy ent) of
                (db2, None) \<Rightarrow> (db2, Inl (TypeError ''argument after ** must be a mapping''))
              | (db2, Some new_portfolio) \<Rightarrow>
                  (db2,
                   Inr \<lparr>tickers = cfg_tickers cfg,
                        exp_name = cfg_exp_name cfg,
                        self_trading_date = cfg_trading_date cfg,
                        init_portfolio = Portfolio.truncate new_portfolio,
                        planner_mode = cfg_planner_mode cfg,
                        workflow_analysts =
                          filter (check_agent_key registry) (cfg_workflow_analysts cfg),
                        enable_transaction_fee = cfg_enable_transaction_fee cfg\<rparr>)))"

text \<open>\<^verbatim>\<open>AgentWorkflow.load_analysts\<close>, returning \<^verbatim>\<open>self.current_analysts\<close>.\<close>

definition load_analysts ::
  "collaborators \<Rightarrow> AgentWorkflow \<Rightarrow> string \<Rightarrow> error + string list" where
  "load_analysts env self ticker =
     (if workflow_analysts self = [] then Inr []
      else if planner_mode self then
        (case planner_agent env ticker (workflow_analysts self) of
           Inl e \<Rightarrow> Inl e
         | Inr current_analysts \<Rightarrow>
             if current_analysts = [] then Inl (ValueError ''No analysts selected by planner'')
             else Inr current_analysts)
      else Inr (workflow_analysts self))"

text \<open>
  The loop of \<^verbatim>\<open>AgentWorkflow.run\<close> over the tickers, from a portfolio: the log
  written and either the error that ended the loop or the portfolio after the last
  ticker. An exception of \<^verbatim>\<open>workflow.invoke\<close> is caught and raised again as a
  \<^verbatim>\<open>RuntimeError\<close>; one of \<^verbatim>\<open>load_analysts\<close> or \<^verbatim>\<open>build\<close> passes through.
\<close>

fun run_tickers ::
  "collaborators \<Rightarrow> AgentWorkflow \<Rightarrow> string list \<Rightarrow> Portfolio
     \<Rightarrow> log_entry list \<times> (error + Portfolio)" where
  "run_tickers env self [] portfolio = ([], Inr portfolio)"
| "run_tickers env self (ticker # rest) portfolio =
     (case load_analysts env self ticker of
        Inl e \<Rightarrow> ([], Inl e)
      | Inr current_analysts \<Rightarrow>
          (case build env current_analysts of
             Inl e \<Rightarrow> ([], Inl e)
           | Inr workflow \<Rightarrow>
               (case workflow ticker portfolio of
                  Inl e \<Rightarrow>
                    ([WorkflowCompiled ticker],
                     Inl (RuntimeError ''Failed to generate new portfolio''))
                | Inr decision \<Rightarrow>
                    (let (portfolio', warnings) =
                           update_portfolio_ticker portfolio ticker decision
                             (enable_transaction_fee self);
                         (logged, outcome) = run_tickers env self rest portfolio'
                     in (WorkflowCompiled ticker # map Warned warnings
                           @ PositionUpdate ticker # logged,
                         outcome)))))"

text \<open>\<^verbatim>\<open>AgentWorkflow.run\<close>: the loop, then the one call of \<^verbatim>\<open>update_portfolio\<close>.\<close>

definition run ::
  "collaborators \<Rightarrow> database \<Rightarrow> AgentWorkflow \<Rightarrow> string \<Rightarrow> nat
     \<Rightarrow> database \<times> log_entry list \<times> (error + unit)" where
  "run env db self cid now =
     (case run_tickers env self (tickers self) (init_portfolio self) of
        (logged, Inl e) \<Rightarrow> (db, logged, Inl e)
      | (logged, Inr portfolio) \<Rightarrow>
          (let (db', success) = update_portfolio db cid portfolio (self_trading_date self) now
           in (db', logged @ [UpdatingDatabase],
               if success then Inr ()
               else Inl (RuntimeError ''Failed to update portfolio to database''))))"

text \<open>\<^verbatim>\<open>load_portfolio_config\<close> of \<^verbatim>\<open>run.py\<close>; \<^verbatim>\<open>not config_id\<close> holds for
  \<^verbatim>\<open>None\<close> and for the empty string.\<close>

definition load_portfolio_config ::
  "config \<Rightarrow> database \<Rightarrow> entropy \<Rightarrow> database \<times> (error + string)" where
  "load_portfolio_config cfg db ent =
     (case get_config_id_by_name db (cfg_exp_name cfg) of
        Some cid \<Rightarrow>
          if cid \<noteq> [] then (db, Inr cid)
          else (case create_config db (cfg_exp_name cfg) (uuid_config ent) of
                  (db', Some new_id) \<Rightarrow>
                    if new_id \<noteq> [] then (db', Inr new_id)
                    else (db', Inl (RuntimeError ''Failed to create config''))
                | (db', None) \<Rightarrow> (db', Inl (RuntimeError ''Failed to create config'')))
      | None \<Rightarrow>
          (case create_config db (cfg_exp_name cfg) (uuid_config ent) of
             (db', Some new_id) \<Rightarrow>
               if new_id \<noteq> [] then (db', Inr new_id)
               else (db', Inl (RuntimeError ''Failed to create config''))
           | (db', None) \<Rightarrow> (db', Inl (RuntimeError ''Failed to create config''))))"

text \<open>
  \<^verbatim>\<open>run_single_experiment\<close> of \<^verbatim>\<open>run.py\<close>, from the parsed configuration on: the
  configuration id, the check of the date order, the construction of the workflow, the
  run. The result is the database and the log as the call leaves them, and its outcome.
\<close>

definition run_single_experiment ::
  "config \<Rightarrow> database \<Rightarrow> 'f AgentRegistry \<Rightarrow> collaborators \<Rightarrow> entropy
     \<Rightarrow> database \<times> log_entry list \<times> (error + unit)" where
  "run_single_experiment cfg db registry env ent =
     (case load_portfolio_config cfg db ent of
        (db1, Inl e) \<Rightarrow> (db1, [], Inl e)
      | (db1, Inr cid) \<Rightarrow>
          (let latest_trading_date = get_latest_trading_date db1 cid
           in if (case latest_trading_date of
                    None \<Rightarrow> False
                  | Some latest \<Rightarrow> cfg_trading_date cfg < latest)
              then (db1, [], Inl (RuntimeError ''Trading date is not in chronological order''))
              else (case workflow_init registry db1 cfg cid ent of
                      (db2, Inl e) \<Rightarrow> (db2, [], Inl e)
                    | (db2, Inr app) \<Rightarrow> run env db2 app cid (now_update ent))))"



section \<open>Sample data for the worked instances\<close>

abbreviation day1_row :: portfolio_row where
  "day1_row \<equiv>
     \<lparr>row_id = ''p-1'', row_config_id = ''c-1'', row_updated_at = 10, row_trading_date = 1,
      row_cashflow = 1000, row_total_assets = 1000, row_positions = Map.empty\<rparr>"

abbreviation day1_db :: database where
  "day1_db \<equiv>
     \<lparr>cs2_config = [\<lparr>config_row_id = ''c-1'', config_row_exp_name = ''demo''\<rparr>],
      cs2_portfolio = [day1_row]\<rparr>"

abbreviation day2_row :: portfolio_row where
  "day2_row \<equiv>
     \<lparr>row_id = ''p-2'', row_config_id = ''c-1'', row_updated_at = 20, row_trading_date = 2,
      row_cashflow = 1000, row_total_assets = 1000, row_positions = Map.empty\<rparr>"

abbreviation sample_entropy :: entropy where
  "sample_entropy \<equiv>
     \<lparr>uuid_config = ''c-9'', uuid_create = ''p-8'', now_create = 15,
      uuid_copy = ''p-2'', now_copy = 20, now_update = 30\<rparr>"

abbreviation sample_registry :: "unit AgentRegistry" where
  "sample_registry \<equiv>
     \<lparr>agent_func_mapping = [''sentiment'' \<mapsto> ()],
      agent_doc_mapping = [''sentiment'' \<mapsto> ''Reddit sentiment''],
      ANALYST_KEYS = [''sentiment'']\<rparr>"

abbreviation planned_config :: "nat \<Rightarrow> config" where
  "planned_config date \<equiv>
     \<lparr>cfg_exp_name = ''demo'', cfg_tickers = [''AK-47''], cfg_trading_date = date,
      cfg_cashflow = 1000, cfg_planner_mode = True,
      cfg_workflow_analysts = [''sentiment''], cfg_enable_transaction_fee = True\<rparr>"


abbreviation empty_planner :: collaborators where
  "empty_planner \<equiv>
     \<lparr>planner_agent = (\<lambda>ticker analysts. Inr []),
      build = (\<lambda>analysts. Inr (\<lambda>ticker portfolio. Inr (order HOLD 0 1)))\<rparr>"


abbreviation day2_db :: database where
  "day2_db \<equiv>
     \<lparr>cs2_config = [\<lparr>config_row_id = ''c-1'', config_row_exp_name = ''demo''\<rparr>],
      cs2_portfolio = [day1_row, day2_row]\<rparr>"




section \<open>Facts about rounding\<close>








section \<open>The three branches of the ledger update\<close>





section \<open>Buy, sell and hold\<close>










section \<open>Frame of the ledger update\<close>

text \<open>
  Claim C10. Applying a decision for a ticker leaves the entry (shares and value) of every
  other ticker as it was, absent entries included, and the set of tickers held grows by
  at most the ticker itself.
\<close>

theorem other_tickers_untouched:
  assumes "other \<noteq> ticker"
  shows "positions (fst (update_portfolio_ticker p ticker d fee)) other = positions p other
       \<and> dom (positions (fst (update_portfolio_ticker p ticker d fee))) = insert ticker (dom (positions p))"
  using assms by (simp add: update_portfolio_ticker_def Let_def split: Action.split prod.split)

theorem other_tickers_untouched_witness:
  "positions (fst (update_portfolio_ticker (holding 100 ''AK-47'' 3 30) ''AWP'' (order BUY 2 10) True)) ''AK-47''
     = Some \<lparr>Position.shares = 3, position_value = 30\<rparr>
   \<and> dom (positions (fst (update_portfolio_ticker (holding 100 ''AK-47'' 3 30) ''AWP'' (order BUY 2 10) True)))
     = {''AWP'', ''AK-47''}"
proof -
  have a: "''AK-47'' \<noteq> ''AWP''" by simp
  show ?thesis
    using other_tickers_untouched [OF a, of "holding 100 ''AK-47'' 3 30" "order BUY 2 10" True] by simp
qed


section \<open>Non-negative cash and holdings\<close>









section \<open>The registry\<close>

text \<open>
  Claim C7, as the code has it. Resolving an identifier that was never registered raises
  nothing: it returns \<^verbatim>\<open>None\<close>, so no callable is returned for an absent identifier,
  and no error either.
\<close>

theorem unregistered_key_yields_none:
  assumes "key \<notin> dom (agent_func_mapping cls)"
  shows "get_agent_func_by_key cls key = Inr None"
  using assms by (simp add: get_agent_func_by_key_def domIff)

theorem unregistered_key_yields_none_witness:
  "get_agent_func_by_key (register_agent empty_registry ''sentiment'' () ''Reddit sentiment'') ''liquidity''
     = Inr None"
proof -
  have "''liquidity'' \<notin> dom (agent_func_mapping (register_agent empty_registry ''sentiment'' () ''Reddit sentiment''))"
    by (simp add: register_agent_def)
  then show ?thesis
    by (rule unregistered_key_yields_none)
qed

text \<open>Looking up a key in the empty registry returns \<^verbatim>\<open>None\<close>; it is not an error.\<close>

theorem unregistered_key_no_error_counterexample:
  "get_agent_func_by_key empty_registry ''ghost'' = Inr None
   \<and> \<not> isl (get_agent_func_by_key empty_registry ''ghost'')"
  by (simp add: get_agent_func_by_key_def)

section \<open>Copy on write\<close>

lemma find_None_iff_list_ex: "find P xs = None \<longleftrightarrow> \<not> list_ex P xs"
  by (auto simp: find_None_iff list_ex_iff)

lemma find_append_single: "find P xs = None \<Longrightarrow> P x \<Longrightarrow> find P (xs @ [x]) = Some x"
  by (induction xs) (auto split: if_splits)

lemma filter_empty_if_not_ex: "\<not> list_ex P xs \<Longrightarrow> filter P xs = []"
  by (simp add: list_ex_iff filter_empty_conv)

lemma filter_nonempty_if_ex: "list_ex P xs \<Longrightarrow> 1 \<le> length (filter P xs)"
  by (induction xs) auto

lemma copy_portfolio_existing:
  assumes "find (snapshot_of cid date) (cs2_portfolio db) = Some r"
  shows "copy_portfolio db cid p date uid now = (db, Some (row_dict r))"
  using assms by (simp add: copy_portfolio_def)

text \<open>
  Claim C5. Let the first call find a snapshot of the configuration and date, or draw an
  id that is not in the table. Then the first call returns a snapshot, a second call for
  the same configuration and date (with any portfolio, id and time) returns a snapshot
  with the same id and the same ledger fields and leaves the database as the first call
  left it; a snapshot that exists already is reused with the database untouched; and
  the table holds one snapshot of the pair afterwards if it held none before, and as many
  as before otherwise.
\<close>

theorem copy_portfolio_idempotent:
  assumes "list_ex (snapshot_of cid date) (cs2_portfolio db) \<or> \<not> id_taken db uid1"
  shows "\<exists>db1 r1 r2.
           copy_portfolio db cid p1 date uid1 now1 = (db1, Some r1)
         \<and> copy_portfolio db1 cid p2 date uid2 now2 = (db1, Some r2)
         \<and> portfolio_id r2 = portfolio_id r1
         \<and> Portfolio.truncate r2 = Portfolio.truncate r1
         \<and> (list_ex (snapshot_of cid date) (cs2_portfolio db) \<longrightarrow> db1 = db)
         \<and> length (filter (snapshot_of cid date) (cs2_portfolio db1))
             = max 1 (length (filter (snapshot_of cid date) (cs2_portfolio db)))"
proof (cases "find (snapshot_of cid date) (cs2_portfolio db)")
  case (Some r)
  then have ex: "list_ex (snapshot_of cid date) (cs2_portfolio db)"
    using find_None_iff_list_ex [of "snapshot_of cid date" "cs2_portfolio db"] by simp
  have "copy_portfolio db cid p1 date uid1 now1 = (db, Some (row_dict r))"
    and "copy_portfolio db cid p2 date uid2 now2 = (db, Some (row_dict r))"
    using Some by (rule copy_portfolio_existing)+
  moreover have "length (filter (snapshot_of cid date) (cs2_portfolio db))
      = max 1 (length (filter (snapshot_of cid date) (cs2_portfolio db)))"
    using filter_nonempty_if_ex [OF ex] by simp
  ultimately show ?thesis
    by blast
next
  case None
  then have nex: "\<not> list_ex (snapshot_of cid date) (cs2_portfolio db)"
    by (simp add: find_None_iff_list_ex)
  with assms have fresh: "\<not> id_taken db uid1"
    by simp
  define total where "total = cashflow p1 + total_value (positions p1)"
  define new_row where "new_row =
    \<lparr>row_id = uid1, row_config_id = cid, row_updated_at = now1, row_trading_date = date,
     row_cashflow = cashflow p1, row_total_assets = total, row_positions = positions p1\<rparr>"
  define db1 where "db1 = db\<lparr>cs2_portfolio := cs2_portfolio db @ [new_row]\<rparr>"
  define r1 :: portfolio_dict where "r1 =
    \<lparr>portfolio_id = uid1, config_id = cid, trading_date = date, cashflow = cashflow p1,
     total_assets = total, positions = positions p1, updated_at = None\<rparr>"
  have first: "copy_portfolio db cid p1 date uid1 now1 = (db1, Some r1)"
    using None fresh by (simp add: copy_portfolio_def Let_def db1_def r1_def new_row_def total_def)
  have hit: "snapshot_of cid date new_row"
    by (simp add: snapshot_of_def new_row_def)
  have "find (snapshot_of cid date) (cs2_portfolio db1) = Some new_row"
    using None hit by (simp add: db1_def find_append_single)
  then have second: "copy_portfolio db1 cid p2 date uid2 now2 = (db1, Some (row_dict new_row))"
    by (rule copy_portfolio_existing)
  have same_id: "portfolio_id (row_dict new_row) = portfolio_id r1"
    by (simp add: row_dict_def new_row_def r1_def)
  have same: "Portfolio.truncate (row_dict new_row) = Portfolio.truncate r1"
    by (simp add: row_dict_def new_row_def r1_def Portfolio.truncate_def)
  have count: "length (filter (snapshot_of cid date) (cs2_portfolio db1))
      = max 1 (length (filter (snapshot_of cid date) (cs2_portfolio db)))"
    using nex hit by (simp add: db1_def filter_empty_if_not_ex)
  show ?thesis
    using first second same_id same count nex by blast
qed

theorem copy_portfolio_idempotent_witness:
  "\<not> id_taken day1_db ''p-2''
   \<and> (\<exists>db1 r1 r2.
           copy_portfolio day1_db ''c-1'' (row_dict day1_row) 2 ''p-2'' 20 = (db1, Some r1)
         \<and> copy_portfolio db1 ''c-1'' (row_dict day1_row) 2 ''p-3'' 30 = (db1, Some r2)
         \<and> portfolio_id r2 = portfolio_id r1
         \<and> Portfolio.truncate r2 = Portfolio.truncate r1
         \<and> (list_ex (snapshot_of ''c-1'' 2) (cs2_portfolio day1_db) \<longrightarrow> db1 = day1_db)
         \<and> length (filter (snapshot_of ''c-1'' 2) (cs2_portfolio db1))
             = max 1 (length (filter (snapshot_of ''c-1'' 2) (cs2_portfolio day1_db))))"
proof -
  have fresh: "\<not> id_taken day1_db ''p-2''"
    by (simp add: id_taken_def)
  then have "list_ex (snapshot_of ''c-1'' 2) (cs2_portfolio day1_db) \<or> \<not> id_taken day1_db ''p-2''"
    by simp
  from copy_portfolio_idempotent [OF this] fresh show ?thesis
    by blast
qed

section \<open>The loop over the tickers\<close>







section \<open>The snapshot that the construction of the workflow leaves\<close>



section \<open>The run of one trading date\<close>







section \<open>The order of the trading dates\<close>

lemma latest_row_in_set: "latest_row rs = Some r \<Longrightarrow> r \<in> set rs"
  by (induction rs arbitrary: r) (auto split: option.splits if_splits)

lemma find_Some_if_member: "r \<in> set rs \<Longrightarrow> P r \<Longrightarrow> \<exists>r'. find P rs = Some r'"
  by (cases "find P rs") (auto simp: find_None_iff)

lemma load_portfolio_config_existing:
  "get_config_id_by_name db (cfg_exp_name cfg) = Some cid \<Longrightarrow> cid \<noteq> [] \<Longrightarrow>
   load_portfolio_config cfg db ent = (db, Inr cid)"
  by (simp add: load_portfolio_config_def)

lemma workflow_init_reuses_snapshot:
  assumes "get_latest_trading_date db cid = Some (cfg_trading_date cfg)"
  shows "\<exists>app. workflow_init registry db cfg cid ent = (db, Inr app)"
proof -
  from assms obtain r where
    r: "latest_row (rows_of_config db cid) = Some r" "row_trading_date r = cfg_trading_date cfg"
    by (auto simp: get_latest_trading_date_def)
  then have "r \<in> set (rows_of_config db cid)"
    by (simp add: latest_row_in_set)
  then have "r \<in> set (cs2_portfolio db)" "snapshot_of cid (cfg_trading_date cfg) r"
    using r(2) by (simp_all add: rows_of_config_def snapshot_of_def)
  from find_Some_if_member [of r "cs2_portfolio db" "snapshot_of cid (cfg_trading_date cfg)", OF this]
  obtain r' where
    "find (snapshot_of cid (cfg_trading_date cfg)) (cs2_portfolio db) = Some r'"
    by blast
  then have "copy_portfolio db cid (row_dict r) (cfg_trading_date cfg) (uuid_copy ent) (now_copy ent)
      = (db, Some (row_dict r'))"
    by (simp add: copy_portfolio_def)
  then show ?thesis
    using r(1) by (simp add: workflow_init_def get_latest_portfolio_def)
qed

text \<open>
  Claim C6. For a configuration that exists and has a latest persisted trading date, a run
  for a strictly earlier date ends with the ordering error, with the database untouched
  and nothing logged for any ticker; a run for the date equal to the latest one passes
  the check, constructs the workflow on the existing snapshot without touching the
  database, and goes on to \<^verbatim>\<open>run\<close>.
\<close>

theorem chronological_order_enforced:
  assumes "get_config_id_by_name db (cfg_exp_name cfg) = Some cid" and "cid \<noteq> []"
    and "get_latest_trading_date db cid = Some latest"
  shows "(cfg_trading_date cfg < latest \<longrightarrow>
            run_single_experiment cfg db registry env ent
              = (db, [], Inl (RuntimeError ''Trading date is not in chronological order'')))
       \<and> (cfg_trading_date cfg = latest \<longrightarrow>
            (\<exists>app. workflow_init registry db cfg cid ent = (db, Inr app)
               \<and> run_single_experiment cfg db registry env ent
                   = run env db app cid (now_update ent)))"
proof (intro conjI impI)
  assume "cfg_trading_date cfg < latest"
  then show "run_single_experiment cfg db registry env ent
      = (db, [], Inl (RuntimeError ''Trading date is not in chronological order''))"
    using assms by (simp add: run_single_experiment_def load_portfolio_config_existing)
next
  assume eq: "cfg_trading_date cfg = latest"
  then have "get_latest_trading_date db cid = Some (cfg_trading_date cfg)"
    using assms(3) by simp
  from workflow_init_reuses_snapshot [OF this] obtain app where
    app: "workflow_init registry db cfg cid ent = (db, Inr app)"
    by blast
  have "run_single_experiment cfg db registry env ent = run env db app cid (now_update ent)"
    using assms eq app by (simp add: run_single_experiment_def load_portfolio_config_existing)
  then show "\<exists>app. workflow_init registry db cfg cid ent = (db, Inr app)
      \<and> run_single_experiment cfg db registry env ent = run env db app cid (now_update ent)"
    using app by blast
qed

theorem chronological_order_enforced_witness:
  "run_single_experiment (planned_config 1) day2_db sample_registry empty_planner sample_entropy
     = (day2_db, [], Inl (RuntimeError ''Trading date is not in chronological order''))
   \<and> (\<exists>app. workflow_init sample_registry day2_db (planned_config 2) ''c-1'' sample_entropy
               = (day2_db, Inr app)
            \<and> run_single_experiment (planned_config 2) day2_db sample_registry empty_planner sample_entropy
               = run empty_planner day2_db app ''c-1'' (now_update sample_entropy))"
proof -
  have a1: "get_config_id_by_name day2_db (cfg_exp_name (planned_config 1)) = Some ''c-1''"
    and a2: "get_config_id_by_name day2_db (cfg_exp_name (planned_config 2)) = Some ''c-1''"
    by (simp_all add: get_config_id_by_name_def)
  have b: "''c-1'' \<noteq> []" by simp
  have c: "get_latest_trading_date day2_db ''c-1'' = Some 2"
    by (simp add: get_latest_trading_date_def rows_of_config_def)
  have early: "cfg_trading_date (planned_config 1) < 2" by simp
  have same: "cfg_trading_date (planned_config 2) = 2" by simp
  show ?thesis
    using chronological_order_enforced [OF a1 b c, of sample_registry empty_planner sample_entropy]
      chronological_order_enforced [OF a2 b c, of sample_registry empty_planner sample_entropy]
      early same
    by blast
qed

end
